theory Spec2Isabelle
  imports Main
begin

section \<open>The re-export module \<open>quill.ts\<close>\<close>

text \<open>
  The executable part of the repository is a module of two statements:
  \<^verbatim>\<open>
  import Quill from './core';
  export default Quill;
  \<close>
  Loading a module is a computation on the state of the JavaScript realm (which holds,
  among everything else, the library's registry of formats): it either throws, or
  returns the module's exports and the state it leaves behind. A throw is the value
  \<open>Inl e\<close>. The module \<open>./core\<close> is not part of the sources at hand, so its loading is
  the parameter \<open>core\<close> of the model; whatever \<open>./core\<close> exports besides its default
  export is the extension part of its record of exports.
\<close>

record 'q module_exports =
  default_export :: 'q

definition quill_module ::
  "('s \<Rightarrow> 'e + (('q, 'z) module_exports_scheme \<times> 's)) \<Rightarrow> 's \<Rightarrow> 'e + ('q module_exports \<times> 's)" where
  "quill_module core s =
     (case core s of
        Inl e \<Rightarrow> Inl e
      | Inr (core_exports, s') \<Rightarrow>
          (let Quill = default_export core_exports
           in Inr (\<lparr>default_export = Quill\<rparr>, s')))"

section \<open>The declaration file: types as data\<close>

text \<open>
  The second source file declares the shape of the editor's public interface and has
  no executable statement. Its declarations are embedded as values of the datatype
  \<open>ts_type\<close> of TypeScript type expressions, one constant per declared name, with the
  members and overloads in the order of the source. A property or parameter written
  with \<open>?\<close> is \<open>Optional\<close>. A reference to a type declared in the file is the constant
  itself, so a constant is introduced before its first use even where the source
  declares it further down. A type imported from another package (\<open>Delta\<close>, \<open>Blot\<close>,
  \<open>Parchment.Registry\<close>) or from the DOM, and a type that occurs in its own declaration
  (\<open>EventEmitter\<close>, and \<open>Quill\<close> in \<open>find\<close>), is a reference by name, \<open>TRef\<close>.
\<close>

datatype presence = Required | Optional

datatype ts_type =
    TAny
  | TNumber
  | TString
  | TBoolean
  | TVoid
  | TNull
  | TTrue
  | TFalse
  | TStrLit string
  | TRef string
  | TUnion ts_type ts_type
  | TInter ts_type ts_type
  | TArray ts_type
  | TTuple "ts_type list"
  | TFun "ts_param list" ts_type
  | TObj "ts_member list"
and ts_param = Param string presence ts_type
and ts_member =
    Prop string presence ts_type
  | Method string "ts_param list" ts_type
  | StaticMethod string "ts_param list" ts_type
  | Ctor "ts_param list"
  | IndexSig ts_type

abbreviation req :: "string \<Rightarrow> ts_type \<Rightarrow> ts_param" where
  "req n t \<equiv> Param n Required t"

abbreviation opt :: "string \<Rightarrow> ts_type \<Rightarrow> ts_param" where
  "opt n t \<equiv> Param n Optional t"

subsection \<open>Types declared outside the file\<close>

definition Delta :: ts_type where
  "Delta = TRef ''Delta''"

definition Blot :: ts_type where
  "Blot = TRef ''Blot''"

definition Parchment_Registry :: ts_type where
  "Parchment_Registry = TRef ''Parchment.Registry''"

definition HTMLElement :: ts_type where
  "HTMLElement = TRef ''HTMLElement''"

definition HTMLDivElement :: ts_type where
  "HTMLDivElement = TRef ''HTMLDivElement''"

definition Element :: ts_type where
  "Element = TRef ''Element''"

definition DomNode :: ts_type where
  "DomNode = TRef ''Node''"

subsection \<open>The declarations\<close>

definition Sources :: ts_type where
  "Sources = TUnion (TStrLit ''api'') (TUnion (TStrLit ''user'') (TStrLit ''silent''))"

definition Key :: ts_type where
  "Key = TObj
     [Prop ''key'' Required (TUnion TString TNumber),
      Prop ''shortKey'' Optional TBoolean,
      Prop ''ctrlKey'' Optional TBoolean,
      Prop ''shiftKey'' Optional TBoolean,
      Prop ''altKey'' Optional TBoolean]"

definition StringMap :: ts_type where
  "StringMap = TObj [IndexSig TAny]"

definition OptionalAttributes :: ts_type where
  "OptionalAttributes = TObj [Prop ''attributes'' Optional StringMap]"

definition DeltaOperation :: ts_type where
  "DeltaOperation =
     TInter
       (TObj
          [Prop ''insert'' Optional TAny,
           Prop ''delete'' Optional TNumber,
           Prop ''retain'' Optional TNumber])
       OptionalAttributes"

definition BoundsStatic :: ts_type where
  "BoundsStatic = TObj
     [Prop ''bottom'' Required TNumber,
      Prop ''left'' Required TNumber,
      Prop ''right'' Required TNumber,
      Prop ''top'' Required TNumber,
      Prop ''height'' Required TNumber,
      Prop ''width'' Required TNumber]"

text \<open>
  \<open>RangeStatic\<close> is declared twice, as an interface and as a class of the same name;
  TypeScript merges the two declarations into one type that has the members of both.
\<close>

definition RangeStatic_interface :: "ts_member list" where
  "RangeStatic_interface =
     [Prop ''index'' Required TNumber,
      Prop ''length'' Required TNumber]"

definition RangeStatic_class :: "ts_member list" where
  "RangeStatic_class =
     [Ctor [],
      Prop ''index'' Required TNumber,
      Prop ''length'' Required TNumber]"

definition RangeStatic :: ts_type where
  "RangeStatic = TObj (remdups (RangeStatic_interface @ RangeStatic_class))"

definition TextChangeHandler :: ts_type where
  "TextChangeHandler =
     TFun [req ''delta'' Delta, req ''oldContents'' Delta, req ''source'' Sources] TAny"

definition SelectionChangeHandler :: ts_type where
  "SelectionChangeHandler =
     TFun [req ''range'' RangeStatic, req ''oldRange'' RangeStatic, req ''source'' Sources] TAny"

definition EditorChangeHandler :: ts_type where
  "EditorChangeHandler =
     TUnion
       (TFun [req ''name'' (TStrLit ''text-change''), req ''delta'' Delta,
              req ''oldContents'' Delta, req ''source'' Sources] TAny)
       (TFun [req ''name'' (TStrLit ''selection-change''), req ''range'' RangeStatic,
              req ''oldRange'' RangeStatic, req ''source'' Sources] TAny)"

definition KeyboardStatic :: ts_type where
  "KeyboardStatic = TObj
     [Method ''addBinding''
        [req ''key'' Key,
         req ''callback'' (TFun [req ''range'' RangeStatic, req ''context'' TAny] TVoid)]
        TVoid,
      Method ''addBinding''
        [req ''key'' Key,
         req ''context'' TAny,
         req ''callback'' (TFun [req ''range'' RangeStatic, req ''context'' TAny] TVoid)]
        TVoid]"

definition ClipboardMatcherCallback :: ts_type where
  "ClipboardMatcherCallback = TFun [req ''node'' TAny, req ''delta'' Delta] Delta"

definition ClipboardMatcherNode :: ts_type where
  "ClipboardMatcherNode = TUnion TString TNumber"

definition ClipboardStatic :: ts_type where
  "ClipboardStatic = TObj
     [Prop ''matchers'' Required (TArray (TTuple [ClipboardMatcherNode, ClipboardMatcherCallback])),
      Method ''convert''
        [opt ''content'' (TObj [Prop ''html'' Optional TString, Prop ''text'' Optional TString]),
         opt ''formats'' StringMap]
        Delta,
      Method ''addMatcher''
        [req ''selectorOrNodeType'' ClipboardMatcherNode,
         req ''callback'' ClipboardMatcherCallback]
        TVoid,
      Method ''dangerouslyPasteHTML'' [req ''html'' TString, opt ''source'' Sources] TVoid,
      Method ''dangerouslyPasteHTML''
        [req ''index'' TNumber, req ''html'' TString, opt ''source'' Sources] TVoid]"

definition QuillOptionsStatic :: ts_type where
  "QuillOptionsStatic = TObj
     [Prop ''debug'' Optional (TUnion TString TBoolean),
      Prop ''modules'' Optional StringMap,
      Prop ''placeholder'' Optional TString,
      Prop ''readOnly'' Optional TBoolean,
      Prop ''theme'' Optional TString,
      Prop ''formats'' Optional (TArray TString),
      Prop ''bounds'' Optional (TUnion HTMLElement TString),
      Prop ''scrollingContainer'' Optional (TUnion HTMLElement TString),
      Prop ''strict'' Optional TBoolean,
      Prop ''registry'' Optional Parchment_Registry]"

definition EventEmitter :: ts_type where
  "EventEmitter = TObj
     [Method ''on'' [req ''eventName'' (TStrLit ''text-change''), req ''handler'' TextChangeHandler]
        (TRef ''EventEmitter''),
      Method ''on'' [req ''eventName'' (TStrLit ''selection-change''), req ''handler'' SelectionChangeHandler]
        (TRef ''EventEmitter''),
      Method ''on'' [req ''eventName'' (TStrLit ''editor-change''), req ''handler'' EditorChangeHandler]
        (TRef ''EventEmitter''),
      Method ''once'' [req ''eventName'' (TStrLit ''text-change''), req ''handler'' TextChangeHandler]
        (TRef ''EventEmitter''),
      Method ''once'' [req ''eventName'' (TStrLit ''selection-change''), req ''handler'' SelectionChangeHandler]
        (TRef ''EventEmitter''),
      Method ''once'' [req ''eventName'' (TStrLit ''editor-change''), req ''handler'' EditorChangeHandler]
        (TRef ''EventEmitter''),
      Method ''off'' [req ''eventName'' (TStrLit ''text-change''), req ''handler'' TextChangeHandler]
        (TRef ''EventEmitter''),
      Method ''off'' [req ''eventName'' (TStrLit ''selection-change''), req ''handler'' SelectionChangeHandler]
        (TRef ''EventEmitter''),
      Method ''off'' [req ''eventName'' (TStrLit ''editor-change''), req ''handler'' EditorChangeHandler]
        (TRef ''EventEmitter'')]"

definition Quill :: ts_type where
  "Quill = TObj
     [Prop ''root'' Required HTMLDivElement,
      Prop ''clipboard'' Required ClipboardStatic,
      Prop ''scroll'' Required Blot,
      Prop ''keyboard'' Required KeyboardStatic,
      Ctor [req ''container'' (TUnion TString Element), opt ''options'' QuillOptionsStatic],
      Method ''deleteText'' [req ''index'' TNumber, req ''length'' TNumber, opt ''source'' Sources] Delta,
      Method ''disable'' [] TVoid,
      Method ''enable'' [opt ''enabled'' TBoolean] TVoid,
      Method ''getContents'' [opt ''index'' TNumber, opt ''length'' TNumber] Delta,
      Method ''getLength'' [] TNumber,
      Method ''getText'' [opt ''index'' TNumber, opt ''length'' TNumber] TString,
      Method ''insertEmbed''
        [req ''index'' TNumber, req ''type'' TString, req ''value'' TAny, opt ''source'' Sources] Delta,
      Method ''insertText'' [req ''index'' TNumber, req ''text'' TString, opt ''source'' Sources] Delta,
      Method ''insertText''
        [req ''index'' TNumber, req ''text'' TString, req ''format'' TString, req ''value'' TAny,
         opt ''source'' Sources] Delta,
      Method ''insertText''
        [req ''index'' TNumber, req ''text'' TString, req ''formats'' StringMap, opt ''source'' Sources]
        Delta,
      Method ''pasteHTML'' [req ''index'' TNumber, req ''html'' TString, opt ''source'' Sources] TString,
      Method ''pasteHTML'' [req ''html'' TString, opt ''source'' Sources] TString,
      Method ''setContents'' [req ''delta'' Delta, opt ''source'' Sources] Delta,
      Method ''setText'' [req ''text'' TString, opt ''source'' Sources] Delta,
      Method ''update'' [opt ''source'' Sources] TVoid,
      Method ''updateContents'' [req ''delta'' Delta, opt ''source'' Sources] Delta,
      Method ''format'' [req ''name'' TString, req ''value'' TAny, opt ''source'' Sources] Delta,
      Method ''formatLine'' [req ''index'' TNumber, req ''length'' TNumber, opt ''source'' Sources] Delta,
      Method ''formatLine''
        [req ''index'' TNumber, req ''length'' TNumber, req ''format'' TString, req ''value'' TAny,
         opt ''source'' Sources] Delta,
      Method ''formatLine''
        [req ''index'' TNumber, req ''length'' TNumber, req ''formats'' StringMap,
         opt ''source'' Sources] Delta,
      Method ''formatText'' [req ''index'' TNumber, req ''length'' TNumber, opt ''source'' Sources] Delta,
      Method ''formatText''
        [req ''index'' TNumber, req ''length'' TNumber, req ''format'' TString, req ''value'' TAny,
         opt ''source'' Sources] Delta,
      Method ''formatText''
        [req ''index'' TNumber, req ''length'' TNumber, req ''formats'' StringMap,
         opt ''source'' Sources] Delta,
      Method ''formatText''
        [req ''range'' RangeStatic, req ''format'' TString, req ''value'' TAny, opt ''source'' Sources]
        Delta,
      Method ''formatText'' [req ''range'' RangeStatic, req ''formats'' StringMap, opt ''source'' Sources]
        Delta,
      Method ''getFormat'' [opt ''range'' RangeStatic] StringMap,
      Method ''getFormat'' [req ''index'' TNumber, opt ''length'' TNumber] StringMap,
      Method ''removeFormat'' [req ''index'' TNumber, req ''length'' TNumber, opt ''source'' Sources] Delta,
      Method ''blur'' [] TVoid,
      Method ''focus'' [] TVoid,
      Method ''getBounds'' [req ''index'' TNumber, opt ''length'' TNumber] BoundsStatic,
      Method ''getSelection'' [req ''focus'' TTrue] RangeStatic,
      Method ''getSelection'' [opt ''focus'' TFalse] (TUnion RangeStatic TNull),
      Method ''hasFocus'' [] TBoolean,
      Method ''setSelection'' [req ''index'' TNumber, req ''length'' TNumber, opt ''source'' Sources] TVoid,
      Method ''setSelection'' [req ''range'' RangeStatic, opt ''source'' Sources] TVoid,
      StaticMethod ''debug'' [req ''level'' (TUnion TString TBoolean)] TVoid,
      StaticMethod ''import'' [req ''path'' TString] TAny,
      StaticMethod ''register'' [req ''path'' TString, req ''def'' TAny, opt ''suppressWarning'' TBoolean]
        TVoid,
      StaticMethod ''register'' [req ''defs'' StringMap, opt ''suppressWarning'' TBoolean] TVoid,
      StaticMethod ''find'' [req ''domNode'' DomNode, opt ''bubble'' TBoolean] (TUnion (TRef ''Quill'') TAny),
      Method ''addContainer'' [req ''classNameOrDomNode'' (TUnion TString DomNode), opt ''refNode'' DomNode]
        TAny,
      Method ''getModule'' [req ''name'' TString] TAny,
      Method ''getIndex'' [req ''blot'' TAny] TNumber,
      Method ''getLeaf'' [req ''index'' TNumber] TAny,
      Method ''getLine'' [req ''index'' TNumber] (TTuple [TAny, TNumber]),
      Method ''getLines'' [opt ''index'' TNumber, opt ''length'' TNumber] (TArray TAny),
      Method ''getLines'' [req ''range'' RangeStatic] (TArray TAny),
      Method ''on'' [req ''eventName'' (TStrLit ''text-change''), req ''handler'' TextChangeHandler]
        (TRef ''EventEmitter''),
      Method ''on'' [req ''eventName'' (TStrLit ''selection-change''), req ''handler'' SelectionChangeHandler]
        (TRef ''EventEmitter''),
      Method ''on'' [req ''eventName'' (TStrLit ''editor-change''), req ''handler'' EditorChangeHandler]
        (TRef ''EventEmitter''),
      Method ''once'' [req ''eventName'' (TStrLit ''text-change''), req ''handler'' TextChangeHandler]
        (TRef ''EventEmitter''),
      Method ''once'' [req ''eventName'' (TStrLit ''selection-change''), req ''handler'' SelectionChangeHandler]
        (TRef ''EventEmitter''),
      Method ''once'' [req ''eventName'' (TStrLit ''editor-change''), req ''handler'' EditorChangeHandler]
        (TRef ''EventEmitter''),
      Method ''off'' [req ''eventName'' (TStrLit ''text-change''), req ''handler'' TextChangeHandler]
        (TRef ''EventEmitter''),
      Method ''off'' [req ''eventName'' (TStrLit ''selection-change''), req ''handler'' SelectionChangeHandler]
        (TRef ''EventEmitter''),
      Method ''off'' [req ''eventName'' (TStrLit ''editor-change''), req ''handler'' EditorChangeHandler]
        (TRef ''EventEmitter'')]"

subsection \<open>Reading a declaration\<close>

fun members :: "ts_type \<Rightarrow> ts_member list" where
  "members (TObj ms) = ms"
| "members (TInter a b) = members a @ members b"
| "members _ = []"

fun member_props :: "ts_member list \<Rightarrow> (string \<times> presence \<times> ts_type) list" where
  "member_props [] = []"
| "member_props (Prop n p t # ms) = (n, p, t) # member_props ms"
| "member_props (_ # ms) = member_props ms"

definition properties :: "ts_type \<Rightarrow> (string \<times> presence \<times> ts_type) list" where
  "properties T = member_props (members T)"

fun method_sigs :: "string \<Rightarrow> ts_member list \<Rightarrow> (ts_param list \<times> ts_type) list" where
  "method_sigs n [] = []"
| "method_sigs n (Method n' ps r # ms) =
     (if n' = n then (ps, r) # method_sigs n ms else method_sigs n ms)"
| "method_sigs n (_ # ms) = method_sigs n ms"

definition overloads :: "string \<Rightarrow> ts_type \<Rightarrow> (ts_param list \<times> ts_type) list" where
  "overloads n T = method_sigs n (members T)"

fun param_type :: "ts_param \<Rightarrow> ts_type" where
  "param_type (Param n p t) = t"

fun with_name :: "string \<Rightarrow> ts_type \<Rightarrow> ts_type" where
  "with_name e (TFun ps r) = TFun (req ''name'' (TStrLit e) # ps) r"
| "with_name e t = t"

section \<open>The declaration file: types as sets of values\<close>

text \<open>
  What a declared type admits is stated on JavaScript values: a value conforms to a
  type when TypeScript, under strict null checking, lets a variable holding exactly
  that value be assigned to the type. Numbers are left abstract (the type parameter
  \<open>'n\<close>), a function is the opaque value \<open>VFun\<close>, and a plain object is the list of
  its properties with their values. A type referred to by name is interpreted by the
  parameter \<open>ext\<close>.

  \<^item> Conformance is structural: an object may carry more properties than the type
    names. (The check of excess properties concerns an object literal written in place,
    not a value.)
  \<^item> \<open>null\<close> and \<open>undefined\<close> belong only to the types that say so and to \<open>any\<close>, and
    \<open>undefined\<close> to an optional property or parameter. A declaration that writes
    \<open>RangeStatic | null\<close> presupposes this.
  \<^item> An index signature \<open>[key: string]: any\<close> admits every value that is not primitive:
    plain objects, arrays and functions. Any other index signature admits the plain
    objects all of whose property values conform.
  \<^item> A type is weak when it has properties and all of them are optional (an
    intersection, when all its parts are weak). A value conforms to a weak type only
    if it is the object without properties or shares the name of at least one property
    with the type. The check is made wherever a value meets a type, except at the
    parts of an intersection, which is checked as a whole.
  \<^item> The members that arrays, functions and primitive values inherit from the standard
    library (\<open>length\<close>, \<open>toString\<close>, ...) are not modelled: no property can be read from
    such a value. No type of the declaration file is satisfied by those members alone.
\<close>

datatype 'n js_value =
    VUndefined
  | VNull
  | VBool bool
  | VNum 'n
  | VStr string
  | VFun
  | VArr "'n js_value list"
  | VObj "(string \<times> 'n js_value) list"

fun props :: "'n js_value \<Rightarrow> (string \<times> 'n js_value) list" where
  "props (VObj fs) = fs"
| "props _ = []"

fun non_primitive :: "'n js_value \<Rightarrow> bool" where
  "non_primitive (VObj fs) = True"
| "non_primitive (VArr xs) = True"
| "non_primitive VFun = True"
| "non_primitive _ = False"

fun instance_member :: "ts_member \<Rightarrow> bool" where
  "instance_member (StaticMethod n ps r) = False"
| "instance_member (Ctor ps) = False"
| "instance_member _ = True"

fun optional_prop :: "ts_member \<Rightarrow> bool" where
  "optional_prop (Prop n Optional t) = True"
| "optional_prop _ = False"

fun weak :: "ts_type \<Rightarrow> bool" where
  "weak (TObj ms) =
     (filter instance_member ms \<noteq> [] \<and> list_all optional_prop (filter instance_member ms))"
| "weak (TInter a b) = (weak a \<and> weak b)"
| "weak _ = False"

definition weak_ok :: "ts_type \<Rightarrow> 'n js_value \<Rightarrow> bool" where
  "weak_ok T v =
     (if weak T
      then (case v of
              VObj fs \<Rightarrow> fs = [] \<or> list_ex (\<lambda>k. k \<in> set (map fst (properties T))) (map fst fs)
            | _ \<Rightarrow> False)
      else True)"

fun fits :: "(string \<Rightarrow> 'n js_value \<Rightarrow> bool) \<Rightarrow> ts_type \<Rightarrow> 'n js_value \<Rightarrow> bool"
  and member_ok :: "(string \<Rightarrow> 'n js_value \<Rightarrow> bool) \<Rightarrow> ts_member \<Rightarrow> 'n js_value \<Rightarrow> bool"
where
  "fits ext TAny v = True"
| "fits ext TNumber v = (case v of VNum _ \<Rightarrow> True | _ \<Rightarrow> False)"
| "fits ext TString v = (case v of VStr _ \<Rightarrow> True | _ \<Rightarrow> False)"
| "fits ext TBoolean v = (case v of VBool _ \<Rightarrow> True | _ \<Rightarrow> False)"
| "fits ext TVoid v = (v = VUndefined)"
| "fits ext TNull v = (v = VNull)"
| "fits ext TTrue v = (v = VBool True)"
| "fits ext TFalse v = (v = VBool False)"
| "fits ext (TStrLit s) v = (v = VStr s)"
| "fits ext (TRef n) v = ext n v"
| "fits ext (TUnion a b) v = ((fits ext a v \<and> weak_ok a v) \<or> (fits ext b v \<and> weak_ok b v))"
| "fits ext (TInter a b) v = (fits ext a v \<and> fits ext b v)"
| "fits ext (TArray t) v =
     (case v of VArr xs \<Rightarrow> list_all (\<lambda>x. fits ext t x \<and> weak_ok t x) xs | _ \<Rightarrow> False)"
| "fits ext (TTuple ts) v =
     (case v of VArr xs \<Rightarrow> list_all2 (\<lambda>t x. fits ext t x \<and> weak_ok t x) ts xs | _ \<Rightarrow> False)"
| "fits ext (TFun ps r) v = (v = VFun)"
| "fits ext (TObj ms) v =
     (v \<noteq> VNull \<and> v \<noteq> VUndefined \<and> list_all (\<lambda>m. member_ok ext m v) ms)"
| "member_ok ext (Prop n Required t) v =
     (case map_of (props v) n of None \<Rightarrow> False | Some x \<Rightarrow> fits ext t x \<and> weak_ok t x)"
| "member_ok ext (Prop n Optional t) v =
     (case map_of (props v) n of
        None \<Rightarrow> True
      | Some x \<Rightarrow> x = VUndefined \<or> (fits ext t x \<and> weak_ok t x))"
| "member_ok ext (Method n ps r) v = (map_of (props v) n = Some VFun)"
| "member_ok ext (StaticMethod n ps r) v = True"
| "member_ok ext (Ctor ps) v = True"
| "member_ok ext (IndexSig TAny) v = non_primitive v"
| "member_ok ext (IndexSig t) v =
     (case v of VObj fs \<Rightarrow> list_all (\<lambda>(k, x). fits ext t x \<and> weak_ok t x) fs | _ \<Rightarrow> False)"

definition conforms :: "(string \<Rightarrow> 'n js_value \<Rightarrow> bool) \<Rightarrow> ts_type \<Rightarrow> 'n js_value \<Rightarrow> bool" where
  "conforms ext T v = (fits ext T v \<and> weak_ok T v)"

text \<open>
  A call picks the first overload, in the order of declaration, whose parameters admit
  the arguments; the call then has that overload's return type. An optional parameter
  may be left out or passed \<open>undefined\<close>.
\<close>

fun accepts :: "(string \<Rightarrow> 'n js_value \<Rightarrow> bool) \<Rightarrow> ts_param list \<Rightarrow> 'n js_value list \<Rightarrow> bool" where
  "accepts ext [] [] = True"
| "accepts ext [] (a # as) = False"
| "accepts ext (Param n Required t # ps) [] = False"
| "accepts ext (Param n Optional t # ps) [] = accepts ext ps []"
| "accepts ext (Param n Required t # ps) (a # as) = (conforms ext t a \<and> accepts ext ps as)"
| "accepts ext (Param n Optional t # ps) (a # as) =
     ((a = VUndefined \<or> conforms ext t a) \<and> accepts ext ps as)"

definition call_type ::
  "(string \<Rightarrow> 'n js_value \<Rightarrow> bool) \<Rightarrow> (ts_param list \<times> ts_type) list \<Rightarrow> 'n js_value list \<Rightarrow> ts_type option"
where
  "call_type ext sigs args = map_option snd (find (\<lambda>(ps, r). accepts ext ps args) sigs)"

text \<open>
  The properties among \<open>insert\<close>, \<open>delete\<close> and \<open>retain\<close> that an object carries, for
  statements about how many of them it has.
\<close>

definition operation_fields :: "(string \<times> 'n js_value) list \<Rightarrow> string list" where
  "operation_fields fs = filter (\<lambda>k. map_of fs k \<noteq> None) [''insert'', ''delete'', ''retain'']"

section \<open>Properties of the re-export module\<close>

lemma quill_module_forwards:
  "core s = Inr (m, s') \<Longrightarrow>
     quill_module core s = Inr (\<lparr>default_export = default_export m\<rparr>, s')"
  by (simp add: quill_module_def)

text \<open>
  C4. The module has no error handling of its own: loading it throws exactly when
  loading \<open>./core\<close> throws, and then it throws the very same error; an error is never
  caught, replaced by another one, or raised where \<open>./core\<close> loaded.
\<close>

theorem quill_module_propagates_load_error:
  "(quill_module core s = Inl e) = (core s = Inl e)"
  by (simp add: quill_module_def split: sum.splits prod.splits)

section \<open>Properties of the declared types\<close>

lemma conforms_simps [simp]:
  "conforms ext TAny v = True"
  "conforms ext TNumber v = (\<exists>x. v = VNum x)"
  "conforms ext TString v = (\<exists>x. v = VStr x)"
  "conforms ext TBoolean v = (\<exists>x. v = VBool x)"
  "conforms ext TVoid v = (v = VUndefined)"
  "conforms ext TNull v = (v = VNull)"
  "conforms ext TTrue v = (v = VBool True)"
  "conforms ext TFalse v = (v = VBool False)"
  "conforms ext (TStrLit s) v = (v = VStr s)"
  "conforms ext (TRef n) v = ext n v"
  "conforms ext (TUnion a b) v = (conforms ext a v \<or> conforms ext b v)"
  "conforms ext (TFun ps r) v = (v = VFun)"
  by (cases v; simp add: conforms_def weak_ok_def)+

lemma conforms_obj_not_weak:
  "\<not> weak (TObj ms) \<Longrightarrow>
     conforms ext (TObj ms) v =
       (v \<noteq> VNull \<and> v \<noteq> VUndefined \<and> list_all (\<lambda>m. member_ok ext m v) ms)"
  by (simp add: conforms_def weak_ok_def del: weak.simps)

lemma member_ok_required_number:
  "member_ok ext (Prop n Required TNumber) v = (\<exists>x. map_of (props v) n = Some (VNum x))"
  by (auto simp add: weak_ok_def split: option.splits js_value.splits)

lemma member_ok_optional:
  "member_ok ext (Prop n Optional t) v =
     (\<forall>x. map_of (props v) n = Some x \<longrightarrow> x = VUndefined \<or> conforms ext t x)"
  by (simp add: conforms_def split: option.splits)

lemma Quill_on: "overloads ''on'' Quill = overloads ''on'' EventEmitter"
  by (simp add: overloads_def Quill_def EventEmitter_def)

lemma Quill_once: "overloads ''once'' Quill = overloads ''once'' EventEmitter"
  by (simp add: overloads_def Quill_def EventEmitter_def)

lemma Quill_off: "overloads ''off'' Quill = overloads ''off'' EventEmitter"
  by (simp add: overloads_def Quill_def EventEmitter_def)

lemma EventEmitter_overloads:
  "m \<in> set [''on'', ''once'', ''off''] \<Longrightarrow>
     overloads m EventEmitter =
       [([req ''eventName'' (TStrLit ''text-change''), req ''handler'' TextChangeHandler],
         TRef ''EventEmitter''),
        ([req ''eventName'' (TStrLit ''selection-change''), req ''handler'' SelectionChangeHandler],
         TRef ''EventEmitter''),
        ([req ''eventName'' (TStrLit ''editor-change''), req ''handler'' EditorChangeHandler],
         TRef ''EventEmitter'')]"
  by (auto simp add: overloads_def EventEmitter_def)

lemma handler_is_function:
  "conforms ext TextChangeHandler h = (h = VFun)"
  "conforms ext SelectionChangeHandler h = (h = VFun)"
  "conforms ext EditorChangeHandler h = (h = VFun)"
  by (auto simp add: TextChangeHandler_def SelectionChangeHandler_def EditorChangeHandler_def)

lemma event_call_iff:
  assumes "sigs =
       [([req ''eventName'' (TStrLit ''text-change''), req ''handler'' TextChangeHandler], r),
        ([req ''eventName'' (TStrLit ''selection-change''), req ''handler'' SelectionChangeHandler], r),
        ([req ''eventName'' (TStrLit ''editor-change''), req ''handler'' EditorChangeHandler], r)]"
  shows "(call_type ext sigs [VStr e, h] \<noteq> None) =
     (e \<in> {''text-change'', ''selection-change'', ''editor-change''} \<and> h = VFun)"
  unfolding assms call_type_def by (auto simp add: handler_is_function)

text \<open>
  C3. The class \<open>Quill\<close> declares \<open>on\<close>, \<open>once\<close> and \<open>off\<close>, each with the three overloads of
  the interface \<open>EventEmitter\<close>: the event name \<open>text-change\<close> with a
  \<open>TextChangeHandler\<close>, \<open>selection-change\<close> with a \<open>SelectionChangeHandler\<close> and
  \<open>editor-change\<close> with an \<open>EditorChangeHandler\<close>. A call with an event name and a
  handler is admitted exactly for these three names (and a function as handler). The
  handler of a content change takes the two deltas and the source, the handler of a
  selection change the two ranges and the source, and the handler of the combined
  notification is either of these behind the name of the event.
\<close>

theorem Quill_event_subscription:
  "(\<forall>m \<in> set [''on'', ''once'', ''off''].
      overloads m Quill = overloads m EventEmitter \<and>
      map (\<lambda>(ps, r). map param_type ps) (overloads m Quill) =
        [[TStrLit ''text-change'', TextChangeHandler],
         [TStrLit ''selection-change'', SelectionChangeHandler],
         [TStrLit ''editor-change'', EditorChangeHandler]] \<and>
      (\<forall>e h. (call_type ext (overloads m Quill) [VStr e, h] \<noteq> None) =
         (e \<in> {''text-change'', ''selection-change'', ''editor-change''} \<and> h = VFun))) \<and>
   TextChangeHandler =
     TFun [req ''delta'' Delta, req ''oldContents'' Delta, req ''source'' Sources] TAny \<and>
   SelectionChangeHandler =
     TFun [req ''range'' RangeStatic, req ''oldRange'' RangeStatic, req ''source'' Sources] TAny \<and>
   EditorChangeHandler =
     TUnion (with_name ''text-change'' TextChangeHandler)
            (with_name ''selection-change'' SelectionChangeHandler)"
proof -
  have sub: "overloads m Quill = overloads m EventEmitter"
    if "m \<in> set [''on'', ''once'', ''off'']" for m
    using that Quill_on Quill_once Quill_off by auto
  have A: "\<forall>m \<in> set [''on'', ''once'', ''off''].
      overloads m Quill = overloads m EventEmitter \<and>
      map (\<lambda>(ps, r). map param_type ps) (overloads m Quill) =
        [[TStrLit ''text-change'', TextChangeHandler],
         [TStrLit ''selection-change'', SelectionChangeHandler],
         [TStrLit ''editor-change'', EditorChangeHandler]] \<and>
      (\<forall>e h. (call_type ext (overloads m Quill) [VStr e, h] \<noteq> None) =
         (e \<in> {''text-change'', ''selection-change'', ''editor-change''} \<and> h = VFun))"
  proof
    fix m assume m: "m \<in> set [''on'', ''once'', ''off'']"
    note ov = EventEmitter_overloads [OF m]
    have "\<forall>e h. (call_type ext (overloads m EventEmitter) [VStr e, h] \<noteq> None) =
         (e \<in> {''text-change'', ''selection-change'', ''editor-change''} \<and> h = VFun)"
      using event_call_iff [OF ov] by blast
    then show "overloads m Quill = overloads m EventEmitter \<and>
      map (\<lambda>(ps, r). map param_type ps) (overloads m Quill) =
        [[TStrLit ''text-change'', TextChangeHandler],
         [TStrLit ''selection-change'', SelectionChangeHandler],
         [TStrLit ''editor-change'', EditorChangeHandler]] \<and>
      (\<forall>e h. (call_type ext (overloads m Quill) [VStr e, h] \<noteq> None) =
         (e \<in> {''text-change'', ''selection-change'', ''editor-change''} \<and> h = VFun))"
      unfolding sub [OF m] by (simp add: ov)
  qed
  have B: "TextChangeHandler =
     TFun [req ''delta'' Delta, req ''oldContents'' Delta, req ''source'' Sources] TAny"
    by (simp add: TextChangeHandler_def)
  have C: "SelectionChangeHandler =
     TFun [req ''range'' RangeStatic, req ''oldRange'' RangeStatic, req ''source'' Sources] TAny"
    by (simp add: SelectionChangeHandler_def)
  have D: "EditorChangeHandler =
     TUnion (with_name ''text-change'' TextChangeHandler)
            (with_name ''selection-change'' SelectionChangeHandler)"
    by (simp add: EditorChangeHandler_def TextChangeHandler_def SelectionChangeHandler_def)
  show ?thesis
    by (rule conjI [OF A conjI [OF B conjI [OF C D]]])
qed

theorem Quill_event_subscription_witness:
  "overloads ''once'' Quill = overloads ''once'' EventEmitter \<and>
   call_type (\<lambda>n v. False) (overloads ''once'' Quill) [VStr ''selection-change'', VFun :: int js_value]
     = Some (TRef ''EventEmitter'') \<and>
   call_type (\<lambda>n v. False) (overloads ''once'' Quill) [VStr ''blur'', VFun :: int js_value] = None"
proof -
  have m: "''once'' \<in> set [''on'', ''once'', ''off'']" by simp
  from Quill_event_subscription [of "\<lambda>n v. False"] m
  have a: "overloads ''once'' Quill = overloads ''once'' EventEmitter"
    and b: "\<forall>e (h :: int js_value). (call_type (\<lambda>n v. False) (overloads ''once'' Quill) [VStr e, h] \<noteq> None) =
         (e \<in> {''text-change'', ''selection-change'', ''editor-change''} \<and> h = VFun)"
    by blast+
  from b have "(call_type (\<lambda>n v. False) (overloads ''once'' Quill) [VStr ''blur'', VFun :: int js_value] \<noteq> None) =
      (''blur'' \<in> {''text-change'', ''selection-change'', ''editor-change''} \<and> (VFun :: int js_value) = VFun)"
    by (rule allE) (erule allE)
  then have "call_type (\<lambda>n v. False) (overloads ''once'' Quill) [VStr ''blur'', VFun :: int js_value] = None"
    by simp
  moreover have "call_type (\<lambda>n v. False) (overloads ''once'' Quill) [VStr ''selection-change'', VFun :: int js_value]
     = Some (TRef ''EventEmitter'')"
    by (simp add: a EventEmitter_overloads call_type_def handler_is_function)
  ultimately show ?thesis using a by simp
qed

text \<open>
  C5. The options of the constructor, \<open>QuillOptionsStatic\<close>, have the fields \<open>debug\<close>,
  \<open>modules\<close>, \<open>placeholder\<close>, \<open>readOnly\<close>, \<open>theme\<close>, \<open>formats\<close>, \<open>bounds\<close> and
  \<open>registry\<close>, each of them optional; every member of the type is an optional property,
  so that the object without properties is a value of the type.
\<close>

theorem QuillOptionsStatic_all_optional:
  "(\<forall>n \<in> set [''debug'', ''modules'', ''placeholder'', ''readOnly'', ''theme'', ''formats'',
               ''bounds'', ''registry''].
      \<exists>t. (n, Optional, t) \<in> set (properties QuillOptionsStatic)) \<and>
   (\<forall>m \<in> set (members QuillOptionsStatic). \<exists>n t. m = Prop n Optional t) \<and>
   conforms ext QuillOptionsStatic (VObj [])"
  by (simp add: QuillOptionsStatic_def properties_def conforms_def weak_ok_def)

theorem QuillOptionsStatic_all_optional_witness:
  "(\<exists>t. (''registry'', Optional, t) \<in> set (properties QuillOptionsStatic)) \<and>
   (\<exists>n t. Prop ''strict'' Optional TBoolean = Prop n Optional t) \<and>
   conforms (\<lambda>n v. False) QuillOptionsStatic (VObj [] :: int js_value)"
proof -
  have n: "''registry'' \<in> set [''debug'', ''modules'', ''placeholder'', ''readOnly'', ''theme'',
      ''formats'', ''bounds'', ''registry'']"
    by simp
  have m: "Prop ''strict'' Optional TBoolean \<in> set (members QuillOptionsStatic)"
    by (simp add: QuillOptionsStatic_def)
  from QuillOptionsStatic_all_optional [of "\<lambda>n v. False"] n m show ?thesis
    by blast
qed

text \<open>
  C6. \<open>RangeStatic\<close> has the two properties \<open>index\<close> and \<open>length\<close>, both required
  numbers, and no other property; the interface and the class of that name declare the
  same two. Its values are the objects that carry a numeric \<open>index\<close> and a numeric
  \<open>length\<close>.
\<close>

theorem RangeStatic_is_index_length_pair:
  "properties RangeStatic = [(''index'', Required, TNumber), (''length'', Required, TNumber)] \<and>
   member_props RangeStatic_interface = properties RangeStatic \<and>
   member_props RangeStatic_class = properties RangeStatic \<and>
   (conforms ext RangeStatic v =
      (\<exists>fs i l. v = VObj fs \<and> map_of fs ''index'' = Some (VNum i) \<and>
         map_of fs ''length'' = Some (VNum l)))"
proof -
  have ms: "members RangeStatic =
      [Ctor [], Prop ''index'' Required TNumber, Prop ''length'' Required TNumber]"
    by (simp add: RangeStatic_def RangeStatic_interface_def RangeStatic_class_def)
  have nw: "\<not> weak RangeStatic"
    by (simp add: RangeStatic_def RangeStatic_interface_def RangeStatic_class_def)
  have "conforms ext RangeStatic v =
      (\<exists>fs i l. v = VObj fs \<and> map_of fs ''index'' = Some (VNum i) \<and>
         map_of fs ''length'' = Some (VNum l))"
    using nw ms unfolding RangeStatic_def
    by (cases v)
      (simp_all add: conforms_obj_not_weak member_ok_required_number del: member_ok.simps(1))
  then show ?thesis
    by (simp add: ms properties_def RangeStatic_interface_def RangeStatic_class_def)
qed

text \<open>
  C7. \<open>BoundsStatic\<close> has six members, the required numeric properties \<open>top\<close>, \<open>right\<close>,
  \<open>bottom\<close>, \<open>left\<close>, \<open>width\<close> and \<open>height\<close>; its values are the objects that carry a
  number under each of the six names.
\<close>

theorem BoundsStatic_is_pixel_rectangle:
  "set (members BoundsStatic) =
     (\<lambda>n. Prop n Required TNumber) ` {''top'', ''right'', ''bottom'', ''left'', ''width'', ''height''} \<and>
   length (members BoundsStatic) = 6 \<and>
   (conforms ext BoundsStatic v =
      (\<exists>fs. v = VObj fs \<and>
         (\<forall>n \<in> {''top'', ''right'', ''bottom'', ''left'', ''width'', ''height''}.
            \<exists>x. map_of fs n = Some (VNum x))))"
proof -
  have "set (members BoundsStatic) =
     (\<lambda>n. Prop n Required TNumber) ` {''top'', ''right'', ''bottom'', ''left'', ''width'', ''height''}"
    by (auto simp add: BoundsStatic_def)
  moreover have "length (members BoundsStatic) = 6"
    by (simp add: BoundsStatic_def)
  moreover have "conforms ext BoundsStatic v =
      (\<exists>fs. v = VObj fs \<and>
         (\<forall>n \<in> {''top'', ''right'', ''bottom'', ''left'', ''width'', ''height''}.
            \<exists>x. map_of fs n = Some (VNum x)))"
    unfolding BoundsStatic_def
    by (cases v)
      (auto simp add: conforms_obj_not_weak member_ok_required_number simp del: member_ok.simps(1))
  ultimately show ?thesis by blast
qed

theorem BoundsStatic_is_pixel_rectangle_witness:
  "conforms (\<lambda>n v. False) BoundsStatic
     (VObj [(''top'', VNum 10), (''right'', VNum 110), (''bottom'', VNum 30), (''left'', VNum 10),
            (''width'', VNum 100), (''height'', VNum (20 :: int))]) \<and>
   \<not> conforms (\<lambda>n v. False) BoundsStatic
     (VObj [(''top'', VNum 10), (''right'', VNum 110), (''bottom'', VNum 30), (''left'', VNum 10),
            (''width'', VNum (100 :: int))])"
  using BoundsStatic_is_pixel_rectangle
    [of "\<lambda>n v. False" "VObj [(''top'', VNum 10), (''right'', VNum 110), (''bottom'', VNum 30),
       (''left'', VNum 10), (''width'', VNum 100), (''height'', VNum (20 :: int))]"]
    BoundsStatic_is_pixel_rectangle
    [of "\<lambda>n v. False" "VObj [(''top'', VNum 10), (''right'', VNum 110), (''bottom'', VNum 30),
       (''left'', VNum 10), (''width'', VNum (100 :: int))]"]
  by simp

lemma conforms_StringMap_iff: "conforms ext StringMap v = non_primitive v"
  by (cases v) (simp_all add: StringMap_def conforms_def weak_ok_def)

lemma DeltaOperation_properties:
  "properties DeltaOperation =
     [(''insert'', Optional, TAny), (''delete'', Optional, TNumber),
      (''retain'', Optional, TNumber), (''attributes'', Optional, StringMap)]"
  by (simp add: properties_def DeltaOperation_def OptionalAttributes_def)

lemma list_ex_keys: "list_ex (\<lambda>k. k \<in> S) (map fst fs) = (\<exists>k \<in> S. map_of fs k \<noteq> None)"
  unfolding list_ex_iff map_of_eq_None_iff set_map by blast

lemma DeltaOperation_weak_ok:
  "weak_ok DeltaOperation (VObj fs) =
     (fs = [] \<or> (\<exists>k \<in> {''insert'', ''delete'', ''retain'', ''attributes''}. map_of fs k \<noteq> None))"
proof -
  have w: "weak DeltaOperation"
    by (simp add: DeltaOperation_def OptionalAttributes_def)
  have S: "set (map fst (properties DeltaOperation)) =
      {''insert'', ''delete'', ''retain'', ''attributes''}"
    by (simp add: DeltaOperation_properties)
  show ?thesis
    unfolding weak_ok_def list_ex_keys S by (simp add: w)
qed

lemma DeltaOperation_fits:
  "fits ext DeltaOperation (VObj fs) =
     ((\<forall>v. map_of fs ''delete'' = Some v \<longrightarrow> v = VUndefined \<or> (\<exists>d. v = VNum d)) \<and>
      (\<forall>v. map_of fs ''retain'' = Some v \<longrightarrow> v = VUndefined \<or> (\<exists>r. v = VNum r)) \<and>
      (\<forall>v. map_of fs ''attributes'' = Some v \<longrightarrow> v = VUndefined \<or> non_primitive v))"
  unfolding DeltaOperation_def OptionalAttributes_def
  by (simp add: member_ok_optional conforms_StringMap_iff del: member_ok.simps)

lemma DeltaOperation_conforms_iff:
  "conforms ext DeltaOperation (VObj fs) =
     ((\<forall>v. map_of fs ''delete'' = Some v \<longrightarrow> v = VUndefined \<or> (\<exists>d. v = VNum d)) \<and>
      (\<forall>v. map_of fs ''retain'' = Some v \<longrightarrow> v = VUndefined \<or> (\<exists>r. v = VNum r)) \<and>
      (\<forall>v. map_of fs ''attributes'' = Some v \<longrightarrow> v = VUndefined \<or> non_primitive v) \<and>
      (fs = [] \<or> (\<exists>k \<in> {''insert'', ''delete'', ''retain'', ''attributes''}. map_of fs k \<noteq> None)))"
  unfolding conforms_def DeltaOperation_fits DeltaOperation_weak_ok by (simp add: conj_assoc)

lemma DeltaOperation_any_presence:
  assumes S: "S \<in> set (subseqs [''insert'', ''delete'', ''retain''])"
  shows "\<exists>fs. operation_fields fs = S \<and> conforms ext DeltaOperation (VObj fs)"
proof -
  let ?fs = "map (\<lambda>k. (k, VNum undefined)) S"
  have "operation_fields ?fs = S"
    using S by (auto simp add: operation_fields_def)
  moreover have "conforms ext DeltaOperation (VObj ?fs)"
    using S by (auto simp add: DeltaOperation_conforms_iff)
  ultimately show ?thesis by blast
qed

text \<open>
  C8, as stated, fails at two objects. The object \<open>{insert: 'a', delete: 'x'}\<close> carries
  more than one of \<open>insert\<close>, \<open>delete\<close> and \<open>retain\<close> and is not a \<open>DeltaOperation\<close>,
  since \<open>delete\<close> is declared a number. The object \<open>{foo: 1}\<close> carries none of them (and
  no \<open>attributes\<close>) and is not a \<open>DeltaOperation\<close> either: all properties of the type
  are optional, and the object shares none of them.
\<close>

theorem DeltaOperation_any_object_counterexample:
  "operation_fields [(''insert'', VStr ''a''), (''delete'', VStr ''x'') :: string \<times> int js_value]
     = [''insert'', ''delete''] \<and>
   \<not> conforms (\<lambda>n v. False) DeltaOperation
       (VObj [(''insert'', VStr ''a''), (''delete'', VStr ''x'') :: string \<times> int js_value]) \<and>
   operation_fields [(''foo'', VNum (1 :: int))] = [] \<and>
   map_of [(''foo'', VNum (1 :: int))] ''attributes'' = None \<and>
   \<not> conforms (\<lambda>n v. False) DeltaOperation (VObj [(''foo'', VNum (1 :: int))])"
  by (simp add: operation_fields_def DeltaOperation_conforms_iff)

text \<open>
  C8, amended. The four properties of \<open>DeltaOperation\<close>, that is \<open>insert\<close>, \<open>delete\<close>,
  \<open>retain\<close> and \<open>attributes\<close>, are optional, and the type does not constrain how many of
  \<open>insert\<close>, \<open>delete\<close> and \<open>retain\<close> an object carries. An object is a \<open>DeltaOperation\<close>
  exactly when each of \<open>delete\<close> and \<open>retain\<close> that it carries is a number (or
  \<open>undefined\<close>), the \<open>attributes\<close> it carries are an object, an array or a function (or
  \<open>undefined\<close>), and the object either has no property at all or has at least one of the
  four; \<open>insert\<close> may hold anything. For every selection of \<open>insert\<close>, \<open>delete\<close> and
  \<open>retain\<close>, none of them and several of them included, there is a \<open>DeltaOperation\<close>
  that carries exactly the selected ones.
\<close>

theorem DeltaOperation_all_optional:
  "properties DeltaOperation =
     [(''insert'', Optional, TAny), (''delete'', Optional, TNumber),
      (''retain'', Optional, TNumber), (''attributes'', Optional, StringMap)] \<and>
   (conforms ext DeltaOperation (VObj fs) =
      ((\<forall>v. map_of fs ''delete'' = Some v \<longrightarrow> v = VUndefined \<or> (\<exists>d. v = VNum d)) \<and>
       (\<forall>v. map_of fs ''retain'' = Some v \<longrightarrow> v = VUndefined \<or> (\<exists>r. v = VNum r)) \<and>
       (\<forall>v. map_of fs ''attributes'' = Some v \<longrightarrow> v = VUndefined \<or> non_primitive v) \<and>
       (fs = [] \<or> (\<exists>k \<in> {''insert'', ''delete'', ''retain'', ''attributes''}. map_of fs k \<noteq> None)))) \<and>
   (\<forall>S \<in> set (subseqs [''insert'', ''delete'', ''retain'']).
      \<exists>gs. operation_fields gs = S \<and> conforms ext DeltaOperation (VObj gs))"
  using DeltaOperation_properties DeltaOperation_conforms_iff [of ext fs]
    DeltaOperation_any_presence [of _ ext]
  by blast

theorem DeltaOperation_all_optional_witness:
  "conforms (\<lambda>n v. False) DeltaOperation (VObj [] :: int js_value) \<and>
   conforms (\<lambda>n v. False) DeltaOperation
     (VObj [(''insert'', VStr ''a''), (''delete'', VNum 1), (''retain'', VNum (2 :: int))]) \<and>
   conforms (\<lambda>n v. False) DeltaOperation (VObj [(''attributes'', VArr [VNum (1 :: int)])]) \<and>
   \<not> conforms (\<lambda>n v. False) DeltaOperation (VObj [(''delete'', VStr ''x'') :: string \<times> int js_value]) \<and>
   (\<exists>gs :: (string \<times> int js_value) list. operation_fields gs = [''delete'', ''retain'']
      \<and> conforms (\<lambda>n v. False) DeltaOperation (VObj gs))"
proof -
  note t = DeltaOperation_all_optional [where ext = "\<lambda>n (v :: int js_value). False"]
  have S: "[''delete'', ''retain''] \<in> set (subseqs [''insert'', ''delete'', ''retain''])"
    by simp
  from t [of "[]"] have a: "conforms (\<lambda>n v. False) DeltaOperation (VObj [] :: int js_value)"
    by simp
  from t [of "[(''insert'', VStr ''a''), (''delete'', VNum 1), (''retain'', VNum 2)]"]
  have b: "conforms (\<lambda>n v. False) DeltaOperation
     (VObj [(''insert'', VStr ''a''), (''delete'', VNum 1), (''retain'', VNum (2 :: int))])"
    by simp
  from t [of "[(''attributes'', VArr [VNum 1])]"]
  have c: "conforms (\<lambda>n v. False) DeltaOperation (VObj [(''attributes'', VArr [VNum (1 :: int)])])"
    by simp
  from t [of "[(''delete'', VStr ''x'')]"]
  have d: "\<not> conforms (\<lambda>n v. False) DeltaOperation
      (VObj [(''delete'', VStr ''x'') :: string \<times> int js_value])"
    by simp
  from t [of "[]"] S
  have e: "\<exists>gs :: (string \<times> int js_value) list. operation_fields gs = [''delete'', ''retain'']
      \<and> conforms (\<lambda>n v. False) DeltaOperation (VObj gs)"
    by blast
  from a b c d e show ?thesis by blast
qed

lemma getSelection_overloads:
  "overloads ''getSelection'' Quill =
     [([req ''focus'' TTrue], RangeStatic),
      ([opt ''focus'' TFalse], TUnion RangeStatic TNull)]"
  by (simp add: overloads_def Quill_def)

lemma RangeStatic_not_null: "\<not> conforms ext RangeStatic VNull"
  by (simp add: RangeStatic_def conforms_def)

lemma accepts_focus_true: "accepts ext [req ''focus'' TTrue] args = (args = [VBool True])"
proof (cases args)
  case Nil
  then show ?thesis by simp
next
  case (Cons a as)
  then show ?thesis by (cases as) auto
qed

lemma accepts_focus_false:
  "accepts ext [opt ''focus'' TFalse] args =
     (args = [] \<or> args = [VUndefined] \<or> args = [VBool False])"
proof (cases args)
  case Nil
  then show ?thesis by simp
next
  case (Cons a as)
  then show ?thesis by (cases as) auto
qed

text \<open>
  C9. A call \<open>getSelection(true)\<close> has the type \<open>RangeStatic\<close>, of which \<open>null\<close> is not
  a value. A call of \<open>getSelection\<close> whose type admits \<open>null\<close> passes no argument (or
  \<open>undefined\<close>, which stands for a missing optional argument) or passes \<open>false\<close>; these
  calls have the type \<open>RangeStatic | null\<close>. No other call is admitted.
\<close>

theorem getSelection_null_only_without_focus:
  "call_type ext (overloads ''getSelection'' Quill) [VBool True] = Some RangeStatic \<and>
   \<not> conforms ext RangeStatic VNull \<and>
   (\<forall>args t. call_type ext (overloads ''getSelection'' Quill) args = Some t \<and> conforms ext t VNull
      \<longrightarrow> args = [] \<or> args = [VUndefined] \<or> args = [VBool False]) \<and>
   (\<forall>args \<in> {[], [VUndefined], [VBool False]}.
      call_type ext (overloads ''getSelection'' Quill) args = Some (TUnion RangeStatic TNull)) \<and>
   (\<forall>args. call_type ext (overloads ''getSelection'' Quill) args \<noteq> None
      \<longrightarrow> args \<in> {[VBool True], [], [VUndefined], [VBool False]})"
proof -
  have ct: "call_type ext (overloads ''getSelection'' Quill) args =
      (if args = [VBool True] then Some RangeStatic
       else if args = [] \<or> args = [VUndefined] \<or> args = [VBool False]
       then Some (TUnion RangeStatic TNull) else None)" for args
    by (simp add: getSelection_overloads call_type_def accepts_focus_true accepts_focus_false
        del: accepts.simps)
  show ?thesis
    using RangeStatic_not_null [of ext] by (auto simp add: ct split: if_splits)
qed

theorem getSelection_null_only_without_focus_witness:
  "call_type (\<lambda>n v. False) (overloads ''getSelection'' Quill) [VBool False :: int js_value]
     = Some (TUnion RangeStatic TNull) \<and>
   conforms (\<lambda>n v. False) (TUnion RangeStatic TNull) (VNull :: int js_value) \<and>
   call_type (\<lambda>n v. False) (overloads ''getSelection'' Quill) [VBool True :: int js_value]
     = Some RangeStatic \<and>
   \<not> conforms (\<lambda>n v. False) RangeStatic (VNull :: int js_value)"
proof -
  have "[VBool False :: int js_value] \<in> {[], [VUndefined], [VBool False]}" by simp
  with getSelection_null_only_without_focus [of "\<lambda>n (v :: int js_value). False"] show ?thesis
    by simp
qed

lemma returns_of_map_snd:
  assumes h: "map snd xs = replicate (Suc k) d"
  shows "xs \<noteq> [] \<and> (\<forall>(ps, r) \<in> set xs. r = d)"
proof
  from h show "xs \<noteq> []" by auto
  show "\<forall>(ps, r) \<in> set xs. r = d"
  proof clarify
    fix ps r assume "(ps, r) \<in> set xs"
    then have "r \<in> set (map snd xs)" by force
    then show "r = d" unfolding h by auto
  qed
qed

lemma mutation_method_returns:
  "map snd (overloads ''deleteText'' Quill) = replicate (Suc 0) Delta"
  "map snd (overloads ''insertEmbed'' Quill) = replicate (Suc 0) Delta"
  "map snd (overloads ''insertText'' Quill) = replicate (Suc 2) Delta"
  "map snd (overloads ''setContents'' Quill) = replicate (Suc 0) Delta"
  "map snd (overloads ''setText'' Quill) = replicate (Suc 0) Delta"
  "map snd (overloads ''updateContents'' Quill) = replicate (Suc 0) Delta"
  "map snd (overloads ''format'' Quill) = replicate (Suc 0) Delta"
  "map snd (overloads ''formatLine'' Quill) = replicate (Suc 2) Delta"
  "map snd (overloads ''formatText'' Quill) = replicate (Suc 4) Delta"
  "map snd (overloads ''removeFormat'' Quill) = replicate (Suc 0) Delta"
  by (simp_all add: overloads_def Quill_def numeral_eq_Suc)

text \<open>
  C10. Each of the methods \<open>deleteText\<close>, \<open>insertEmbed\<close>, \<open>insertText\<close>, \<open>setContents\<close>,
  \<open>setText\<close>, \<open>updateContents\<close>, \<open>format\<close>, \<open>formatLine\<close>, \<open>formatText\<close> and
  \<open>removeFormat\<close> is declared by the class \<open>Quill\<close>, and every one of its overloads
  returns \<open>Delta\<close>, which is not \<open>void\<close>.
\<close>

theorem content_mutation_returns_Delta:
  "(\<forall>n \<in> set [''deleteText'', ''insertEmbed'', ''insertText'', ''setContents'', ''setText'',
               ''updateContents'', ''format'', ''formatLine'', ''formatText'', ''removeFormat''].
      overloads n Quill \<noteq> [] \<and> (\<forall>(ps, r) \<in> set (overloads n Quill). r = Delta)) \<and>
   Delta \<noteq> TVoid"
proof -
  have "overloads n Quill \<noteq> [] \<and> (\<forall>(ps, r) \<in> set (overloads n Quill). r = Delta)"
    if "n \<in> set [''deleteText'', ''insertEmbed'', ''insertText'', ''setContents'', ''setText'',
               ''updateContents'', ''format'', ''formatLine'', ''formatText'', ''removeFormat'']"
    for n
    using that mutation_method_returns [THEN returns_of_map_snd] by auto
  then show ?thesis
    by (simp only: Delta_def ts_type.distinct) blast
qed

theorem content_mutation_returns_Delta_witness:
  "map snd (overloads ''formatText'' Quill) = [Delta, Delta, Delta, Delta, Delta]"
proof -
  have n: "''formatText'' \<in> set [''deleteText'', ''insertEmbed'', ''insertText'', ''setContents'',
      ''setText'', ''updateContents'', ''format'', ''formatLine'', ''formatText'', ''removeFormat'']"
    by simp
  have len: "length (overloads ''formatText'' Quill) = 5"
    using arg_cong [OF mutation_method_returns(9), of length] by simp
  from content_mutation_returns_Delta n
  have "\<forall>(ps, r) \<in> set (overloads ''formatText'' Quill). r = Delta"
    by blast
  then have "\<forall>x \<in> set (map snd (overloads ''formatText'' Quill)). x = Delta"
    by auto
  then have "map snd (overloads ''formatText'' Quill) =
      replicate (length (map snd (overloads ''formatText'' Quill))) Delta"
    by (metis replicate_length_same)
  then show ?thesis
    by (simp add: len numeral_eq_Suc)
qed


end
